theory Spec2Isabelle
  imports Main "HOL-Library.Word"
begin

section \<open>Bytes, slices and the \<open>struct\<close> module\<close>

text \<open>
  The client protocol of \<^verbatim>\<open>xpra/client/rfb_protocol.py\<close> reads Python \<^verbatim>\<open>bytes\<close> with
  \<^verbatim>\<open>struct.unpack\<close> and writes them with \<^verbatim>\<open>struct.pack\<close>. A byte is an 8-bit word,
  a decoded field is an unbounded Python integer.
\<close>

type_synonym byte = "8 word"
type_synonym bytes = "byte list"

text \<open>
  \<^verbatim>\<open>xs[a:b]\<close> for arbitrary integers: a negative index counts from the end, and both ends
  are clamped to the length. The slices with constant non-negative bounds of the source
  (\<^verbatim>\<open>packet[:1]\<close>, \<^verbatim>\<open>packet[1:]\<close>, \<^verbatim>\<open>packet[:4]\<close>, \<^verbatim>\<open>packet[4:header_size]\<close>) are written
  with \<open>take\<close> and \<open>drop\<close>, which clamp the same way.
\<close>

definition py_slice :: "'a list \<Rightarrow> int \<Rightarrow> int \<Rightarrow> 'a list" where
  "py_slice xs a b =
     (let n = int (length xs);
          lo = (if a < 0 then max 0 (a + n) else min a n);
          hi = (if b < 0 then max 0 (b + n) else min b n)
      in take (nat hi - nat lo) (drop (nat lo) xs))"

datatype exn = StructError | IndexError | ValueError

datatype byteorder = BigEndian | LittleEndian

text \<open>
  The format characters the source uses: \<^verbatim>\<open>B\<close> (unsigned 8 bit), \<^verbatim>\<open>H\<close> (unsigned 16 bit),
  \<^verbatim>\<open>I\<close> (unsigned 32 bit) and \<^verbatim>\<open>i\<close> (signed 32 bit). A format string is the list of its
  characters together with the byte order its prefix selects (\<^verbatim>\<open>!\<close> is big-endian; no
  prefix is the platform's order, and for the two prefix-less formats of the source,
  \<^verbatim>\<open>B\<close> repeated and a single \<^verbatim>\<open>I\<close>, native alignment inserts no padding).
\<close>

datatype fcode = Fmt_B | Fmt_H | Fmt_I | Fmt_i

fun fsize :: "fcode \<Rightarrow> nat" where
  "fsize Fmt_B = 1"
| "fsize Fmt_H = 2"
| "fsize Fmt_I = 4"
| "fsize Fmt_i = 4"

definition calcsize :: "fcode list \<Rightarrow> nat" where
  "calcsize fs = sum_list (map fsize fs)"

definition be_nat :: "bytes \<Rightarrow> nat" where
  "be_nat bs = foldl (\<lambda>a b. a * 256 + unat b) 0 bs"

definition decode :: "byteorder \<Rightarrow> fcode \<Rightarrow> bytes \<Rightarrow> int" where
  "decode bo c bs =
     (let u = int (be_nat (case bo of BigEndian \<Rightarrow> bs | LittleEndian \<Rightarrow> rev bs))
      in if c = Fmt_i \<and> 2 ^ 31 \<le> u then u - 2 ^ 32 else u)"

fun unpack_fields :: "byteorder \<Rightarrow> fcode list \<Rightarrow> bytes \<Rightarrow> int list" where
  "unpack_fields bo [] bs = []"
| "unpack_fields bo (c # cs) bs =
     decode bo c (take (fsize c) bs) # unpack_fields bo cs (drop (fsize c) bs)"

text \<open>\<^verbatim>\<open>struct.unpack\<close> raises \<^verbatim>\<open>struct.error\<close> unless the buffer has exactly the format's size.\<close>

definition unpack :: "byteorder \<Rightarrow> fcode list \<Rightarrow> bytes \<Rightarrow> exn + int list" where
  "unpack bo fs bs =
     (if length bs \<noteq> calcsize fs then Inl StructError else Inr (unpack_fields bo fs bs))"

fun frange :: "fcode \<Rightarrow> int \<Rightarrow> bool" where
  "frange Fmt_B v = (0 \<le> v \<and> v < 256)"
| "frange Fmt_H v = (0 \<le> v \<and> v < 65536)"
| "frange Fmt_I v = (0 \<le> v \<and> v < 4294967296)"
| "frange Fmt_i v = (- 2147483648 \<le> v \<and> v < 2147483648)"

definition encode :: "byteorder \<Rightarrow> fcode \<Rightarrow> int \<Rightarrow> bytes" where
  "encode bo c v =
     (let be = map (\<lambda>k. (word_of_int (v div 256 ^ k) :: byte)) (rev [0..<fsize c])
      in case bo of BigEndian \<Rightarrow> be | LittleEndian \<Rightarrow> rev be)"

text \<open>
  \<^verbatim>\<open>struct.pack\<close> raises \<^verbatim>\<open>struct.error\<close> when the number of values differs from the
  number of fields or a value does not fit its field.
\<close>

fun pack :: "byteorder \<Rightarrow> fcode list \<Rightarrow> int list \<Rightarrow> exn + bytes" where
  "pack bo [] [] = Inr []"
| "pack bo (c # cs) (v # vs) =
     (if \<not> frange c v then Inl StructError
      else case pack bo cs vs of
             Inl e \<Rightarrow> Inl e
           | Inr r \<Rightarrow> Inr (encode bo c v @ r))"
| "pack bo _ _ = Inl StructError"

section \<open>Constants imported by the client protocol\<close>

text \<open>
  The module imports \<^verbatim>\<open>RFBEncoding\<close>, \<^verbatim>\<open>RFBClientMessage\<close>, \<^verbatim>\<open>RFBAuth\<close> and \<^verbatim>\<open>CLIENT_INIT\<close> from
  \<^verbatim>\<open>xpra.net.rfb.rfb_const\<close> and \<^verbatim>\<open>bytestostr\<close> from \<^verbatim>\<open>xpra.os_util\<close>; neither module is among
  the sources. They are parameters of the model: the values of the members of the
  \<^verbatim>\<open>RFBAuth\<close> enumeration, the value of \<^verbatim>\<open>RFBAuth.NONE\<close>, of \<^verbatim>\<open>RFBClientMessage.SetEncodings\<close>
  and of \<^verbatim>\<open>RFBEncoding.RAW\<close>, the fields of the \<^verbatim>\<open>CLIENT_INIT\<close> format (in network byte order,
  as every multi-field format of the module), and the decoding function. The byte order
  of the platform, which the prefix-less formats use, is a parameter too.
\<close>

record rfb_env =
  RFBAuth_values :: "int list"
  RFBAuth_NONE :: int
  SetEncodings :: int
  RFBEncoding_RAW :: int
  CLIENT_INIT :: "fcode list"
  bytestostr :: "bytes \<Rightarrow> string"
  native :: byteorder

section \<open>State, results and effects\<close>

text \<open>
  The only attribute the parsers assign is \<^verbatim>\<open>self._packet_parser\<close>, the bound method that
  receives the next buffer. Its four values are named as the specification names them:
  \<open>AwaitingSecurityHandshake\<close> is \<^verbatim>\<open>self._parse_security_handshake\<close>,
  \<open>AwaitingSecurityResult\<close> is \<^verbatim>\<open>self._parse_security_result\<close>,
  \<open>AwaitingClientInit\<close> is \<^verbatim>\<open>self._parse_client_init\<close> and
  \<open>SteadyStateUpdates\<close> is \<^verbatim>\<open>self._parse_rfb_packet\<close>.
\<close>

datatype parse_state =
    AwaitingSecurityHandshake
  | AwaitingSecurityResult
  | AwaitingClientInit
  | SteadyStateUpdates

record rfb_client =
  packet_parser :: parse_state

text \<open>
  An element of the list \<^verbatim>\<open>st\<close>: a member of the \<^verbatim>\<open>RFBAuth\<close> enumeration, or the plain
  integer that \<^verbatim>\<open>RFBAuth(v)\<close> rejected with \<^verbatim>\<open>ValueError\<close>. \<^verbatim>\<open>RFBAuth\<close> is an integer
  enumeration, so both compare with \<^verbatim>\<open>RFBAuth.NONE\<close> by their integer value.
\<close>

datatype sec_type = RFBAuth int | OpaqueInt int

fun sec_int :: "sec_type \<Rightarrow> int" where
  "sec_int (RFBAuth v) = v"
| "sec_int (OpaqueInt v) = v"

text \<open>The messages handed to \<^verbatim>\<open>_internal_error\<close> and \<^verbatim>\<open>invalid\<close>, with their arguments.\<close>

datatype message =
    CannotParseSecurityHandshake bytes
  | SecurityTypeNotSupported sec_type
  | AuthenticationDenied int
  | UnknownPacket
  | InvalidEncoding int

datatype log_record =
    LogParseSecurityHandshake bytes
  | LogSecurityTypes bytes "sec_type list"
  | LogSecurityResultSuccess bytes
  | LogParseClientInit bytes
  | LogSessionName string
  | LogParseRfbPacket bytes
  | LogScreenUpdate int int int int

text \<open>
  The calls a parser makes on its collaborators, in order: the logger, \<^verbatim>\<open>self.send\<close>,
  \<^verbatim>\<open>self._internal_error\<close> and \<^verbatim>\<open>self.invalid\<close>. The last three are methods of the base
  class \<^verbatim>\<open>RFBProtocol\<close>, which is not among the sources: a call is recorded with its
  arguments and nothing is assumed about what it does.
\<close>

datatype event =
    Log log_record
  | Send bytes
  | InternalError bytes message
  | Invalid message bytes

datatype retval = RInt int | RNone

datatype outcome = Returned retval | Raised exn

record result =
  outcome :: outcome
  proto :: rfb_client
  effects :: "event list"

definition sends :: "event list \<Rightarrow> bytes list" where
  "sends evs = concat (map (\<lambda>e. case e of Send p \<Rightarrow> [p] | _ \<Rightarrow> []) evs)"

definition aborts :: "event list \<Rightarrow> event list" where
  "aborts evs = filter (\<lambda>e. case e of InternalError _ _ \<Rightarrow> True | Invalid _ _ \<Rightarrow> True | _ \<Rightarrow> False) evs"

section \<open>The parsers\<close>

text \<open>\<^verbatim>\<open>RFBAuth(v)\<close>: the member with value \<open>v\<close>, or \<^verbatim>\<open>ValueError\<close>.\<close>

definition RFBAuth_call :: "rfb_env \<Rightarrow> int \<Rightarrow> exn + sec_type" where
  "RFBAuth_call env v =
     (if v \<in> set (RFBAuth_values env) then Inr (RFBAuth v) else Inl ValueError)"

text \<open>The loop of lines 38 to 44: \<open>st\<close> is the accumulator.\<close>

fun security_types_loop :: "rfb_env \<Rightarrow> int list \<Rightarrow> sec_type list \<Rightarrow> sec_type list" where
  "security_types_loop env [] st = st"
| "security_types_loop env (v # vs) st =
     security_types_loop env vs
       (st @ [case RFBAuth_call env v of Inl _ \<Rightarrow> OpaqueInt v | Inr m \<Rightarrow> m])"

definition parse_security_handshake :: "rfb_env \<Rightarrow> rfb_client \<Rightarrow> bytes \<Rightarrow> result" where
  "parse_security_handshake env self packet =
     (let ev0 = [Log (LogParseSecurityHandshake packet)] in
      case unpack (native env) [Fmt_B] (take 1 packet) of
        Inl e \<Rightarrow> \<lparr>outcome = Raised e, proto = self, effects = ev0\<rparr>
      | Inr [] \<Rightarrow> \<lparr>outcome = Raised IndexError, proto = self, effects = ev0\<rparr>
      | Inr (n # _) \<Rightarrow>
          if n = 0 then
            \<lparr>outcome = Returned (RInt 0), proto = self,
             effects = ev0 @ [InternalError packet (CannotParseSecurityHandshake packet)]\<rparr>
          else
            (case unpack (native env) (replicate (nat n) Fmt_B) (drop 1 packet) of
               Inl e \<Rightarrow> \<lparr>outcome = Raised e, proto = self, effects = ev0\<rparr>
             | Inr security_types \<Rightarrow>
                 (let st = security_types_loop env security_types [];
                      ev1 = ev0 @ [Log (LogSecurityTypes packet st)]
                  in if st \<noteq> [] \<and> sec_int (hd st) \<noteq> RFBAuth_NONE env then
                       \<lparr>outcome = Returned (RInt 0), proto = self,
                        effects = ev1 @ [InternalError packet (SecurityTypeNotSupported (hd st))]\<rparr>
                     else
                       (let self' = self\<lparr>packet_parser := AwaitingSecurityResult\<rparr> in
                        case pack (native env) [Fmt_B] [0] of
                          Inl e \<Rightarrow> \<lparr>outcome = Raised e, proto = self', effects = ev1\<rparr>
                        | Inr p \<Rightarrow>
                            \<lparr>outcome = Returned (RInt (1 + n)), proto = self',
                             effects = ev1 @ [Send p]\<rparr>))))"

definition parse_security_result :: "rfb_env \<Rightarrow> rfb_client \<Rightarrow> bytes \<Rightarrow> result" where
  "parse_security_result env self packet =
     (if length packet < 4 then \<lparr>outcome = Returned (RInt 0), proto = self, effects = []\<rparr>
      else
        case unpack (native env) [Fmt_I] (take 4 packet) of
          Inl e \<Rightarrow> \<lparr>outcome = Raised e, proto = self, effects = []\<rparr>
        | Inr [] \<Rightarrow> \<lparr>outcome = Raised IndexError, proto = self, effects = []\<rparr>
        | Inr (r # _) \<Rightarrow>
            if r \<noteq> 0 then
              \<lparr>outcome = Returned (RInt 0), proto = self,
               effects = [InternalError packet (AuthenticationDenied r)]\<rparr>
            else
              (let ev0 = [Log (LogSecurityResultSuccess packet)];
                   self' = self\<lparr>packet_parser := AwaitingClientInit\<rparr>;
                   share = False
               in case pack (native env) [Fmt_B] [if share then 1 else 0] of
                    Inl e \<Rightarrow> \<lparr>outcome = Raised e, proto = self', effects = ev0\<rparr>
                  | Inr p \<Rightarrow>
                      \<lparr>outcome = Returned (RInt 4), proto = self', effects = ev0 @ [Send p]\<rparr>))"

definition send_set_encodings :: "rfb_env \<Rightarrow> exn + event list" where
  "send_set_encodings env =
     (case pack BigEndian [Fmt_B, Fmt_B, Fmt_H, Fmt_i]
             [SetEncodings env, 0, 1, RFBEncoding_RAW env] of
        Inl e \<Rightarrow> Inl e
      | Inr packet \<Rightarrow> Inr [Send packet])"

definition parse_client_init :: "rfb_env \<Rightarrow> rfb_client \<Rightarrow> bytes \<Rightarrow> result" where
  "parse_client_init env self packet =
     (let ev0 = [Log (LogParseClientInit packet)];
          ci_size = calcsize (CLIENT_INIT env)
      in if length packet < ci_size then
           \<lparr>outcome = Returned (RInt 0), proto = self, effects = ev0\<rparr>
         else
           case unpack BigEndian (CLIENT_INIT env) (take ci_size packet) of
             Inl e \<Rightarrow> \<lparr>outcome = Raised e, proto = self, effects = ev0\<rparr>
           | Inr [] \<Rightarrow> \<lparr>outcome = Raised IndexError, proto = self, effects = ev0\<rparr>
           | Inr (f # fs) \<Rightarrow>
               (let name_size = last (f # fs) in
                if int (length packet) < int ci_size + name_size then
                  \<lparr>outcome = Returned (RInt 0), proto = self, effects = ev0\<rparr>
                else
                  (let session_name =
                         bytestostr env (py_slice packet (int ci_size) (int ci_size + name_size));
                       ev1 = ev0 @ [Log (LogSessionName session_name)];
                       self' = self\<lparr>packet_parser := SteadyStateUpdates\<rparr>
                   in case send_set_encodings env of
                        Inl e \<Rightarrow> \<lparr>outcome = Raised e, proto = self', effects = ev1\<rparr>
                      | Inr evs \<Rightarrow>
                          \<lparr>outcome = Returned (RInt (int ci_size + name_size)), proto = self',
                           effects = ev1 @ evs\<rparr>)))"

definition parse_rfb_packet :: "rfb_env \<Rightarrow> rfb_client \<Rightarrow> bytes \<Rightarrow> result" where
  "parse_rfb_packet env self packet =
     (let ev0 = [Log (LogParseRfbPacket packet)];
          header_size = calcsize [Fmt_B, Fmt_B, Fmt_H, Fmt_H, Fmt_H, Fmt_H, Fmt_H, Fmt_i]
      in if length packet \<le> header_size then
           \<lparr>outcome = Returned (RInt 0), proto = self, effects = ev0\<rparr>
         else
           case pack BigEndian [Fmt_B, Fmt_B, Fmt_H] [0, 0, 1] of
             Inl e \<Rightarrow> \<lparr>outcome = Raised e, proto = self, effects = ev0\<rparr>
           | Inr marker \<Rightarrow>
               if take 4 packet \<noteq> marker then
                 \<lparr>outcome = Returned (RInt 0), proto = self,
                  effects = ev0 @ [Invalid UnknownPacket packet]\<rparr>
               else
                 (case unpack BigEndian [Fmt_H, Fmt_H, Fmt_H, Fmt_H, Fmt_i]
                         (drop 4 (take header_size packet)) of
                    Inl e \<Rightarrow> \<lparr>outcome = Raised e, proto = self, effects = ev0\<rparr>
                  | Inr [x, y, w, h, encoding] \<Rightarrow>
                      if encoding \<noteq> RFBEncoding_RAW env then
                        \<lparr>outcome = Returned RNone, proto = self,
                         effects = ev0 @ [Invalid (InvalidEncoding encoding) packet]\<rparr>
                      else
                        (let ev1 = ev0 @ [Log (LogScreenUpdate x y w h)] in
                         if int (length packet) < int header_size + w * h * 4 then
                           \<lparr>outcome = Returned (RInt 0), proto = self, effects = ev1\<rparr>
                         else
                           \<lparr>outcome = Returned (RInt (int header_size + w * h * 4)),
                            proto = self, effects = ev1\<rparr>)
                  | Inr _ \<Rightarrow> \<lparr>outcome = Raised ValueError, proto = self, effects = ev0\<rparr>))"

text \<open>
  \<^verbatim>\<open>self._packet_parser(packet)\<close>: the call of the bound method that the attribute holds.
\<close>

definition call_packet_parser :: "rfb_env \<Rightarrow> rfb_client \<Rightarrow> bytes \<Rightarrow> result" where
  "call_packet_parser env self packet =
     (case packet_parser self of
        AwaitingSecurityHandshake \<Rightarrow> parse_security_handshake env self packet
      | AwaitingSecurityResult \<Rightarrow> parse_security_result env self packet
      | AwaitingClientInit \<Rightarrow> parse_client_init env self packet
      | SteadyStateUpdates \<Rightarrow> parse_rfb_packet env self packet)"

section \<open>A concrete instance of the parameters\<close>

text \<open>
  The values of RFC 6143, used where a theorem is applied to a concrete input: security
  types Invalid (0), None (1) and VNC authentication (2), the SetEncodings message type 2,
  the Raw encoding 0, and the ServerInit layout (width, height, the sixteen bytes of the
  pixel format, name length). Bytes become characters one to one.
\<close>

definition rfc6143_env :: rfb_env where
  "rfc6143_env =
     \<lparr>RFBAuth_values = [0, 1, 2], RFBAuth_NONE = 1, SetEncodings = 2, RFBEncoding_RAW = 0,
      CLIENT_INIT = [Fmt_H, Fmt_H, Fmt_B, Fmt_B, Fmt_B, Fmt_B, Fmt_H, Fmt_H, Fmt_H,
                     Fmt_B, Fmt_B, Fmt_B, Fmt_B, Fmt_B, Fmt_B, Fmt_I],
      bytestostr = map (\<lambda>b. char_of (unat b)), native = LittleEndian\<rparr>"

section \<open>Facts about the \<open>struct\<close> model\<close>

lemma header_size_16:
  "calcsize [Fmt_B, Fmt_B, Fmt_H, Fmt_H, Fmt_H, Fmt_H, Fmt_H, Fmt_i] = 16"
  by (simp add: calcsize_def)

lemma upt_2: "[0..<2] = [0, Suc 0]"
  by (simp add: upt_rec)

lemma upt_4: "[0..<4] = [0, Suc 0, 2, 3]"
  by (simp add: upt_rec)

lemma encode_B: "encode bo Fmt_B v = [word_of_int v]"
  by (cases bo) (simp_all add: encode_def)

lemma be_nat_4: "be_nat [a, b, c, d] = ((unat a * 256 + unat b) * 256 + unat c) * 256 + unat d"
  by (simp add: be_nat_def)

lemma be_nat_4_zero: "be_nat [a, b, c, d] = 0 \<longleftrightarrow> a = 0 \<and> b = 0 \<and> c = 0 \<and> d = 0"
  by (simp add: be_nat_4 unat_eq_0)

lemma decode_I_zero:
  assumes "length bs = 4"
  shows "decode bo Fmt_I bs = 0 \<longleftrightarrow> bs = [0, 0, 0, 0]"
proof -
  from assms obtain a b c d where bs: "bs = [a, b, c, d]"
    by (auto simp: length_Suc_conv numeral_eq_Suc)
  show ?thesis
    by (cases bo) (auto simp: bs decode_def be_nat_4_zero)
qed

lemma decode_B: "decode bo Fmt_B [b] = uint b"
  by (cases bo) (simp_all add: decode_def be_nat_def)

lemma calcsize_replicate_B: "calcsize (replicate k Fmt_B) = k"
  by (induction k) (simp_all add: calcsize_def)

lemma unpack_fields_replicate_B:
  "length bs = k \<Longrightarrow> unpack_fields bo (replicate k Fmt_B) bs = map uint bs"
  by (induction bs arbitrary: k) (auto simp: decode_B)

lemma unpack_count: "unpack bo [Fmt_B] [n] = Inr [uint n]"
  by (simp add: unpack_def calcsize_def decode_B)

lemma unpack_types:
  "unpack bo (replicate (nat (uint n)) Fmt_B) types =
     (if length types \<noteq> unat n then Inl StructError else Inr (map uint types))"
  by (simp add: unpack_def calcsize_replicate_B unpack_fields_replicate_B)

lemma be_nat_2: "be_nat [a, b] = unat a * 256 + unat b"
  by (simp add: be_nat_def)

lemma decode_H_range:
  assumes "length bs = 2"
  shows "0 \<le> decode bo Fmt_H bs \<and> decode bo Fmt_H bs \<le> 65535"
proof -
  from assms obtain a b where bs: "bs = [a, b]"
    by (auto simp: length_Suc_conv numeral_eq_Suc)
  have "uint a < 256" "uint b < 256" "0 \<le> uint a" "0 \<le> uint b"
    using uint_lt2p [of a] uint_lt2p [of b] by simp_all
  then show ?thesis
    by (cases bo) (simp_all add: bs decode_def be_nat_2)
qed

section \<open>The security handshake, case by case\<close>

lemma security_types_loop_map:
  "security_types_loop env vs st =
     st @ map (\<lambda>v. if v \<in> set (RFBAuth_values env) then RFBAuth v else OpaqueInt v) vs"
  by (induction vs arbitrary: st) (simp_all add: RFBAuth_call_def)

lemma handshake_empty:
  "parse_security_handshake env self [] =
     \<lparr>outcome = Raised StructError, proto = self,
      effects = [Log (LogParseSecurityHandshake [])]\<rparr>"
  by (simp add: parse_security_handshake_def unpack_def calcsize_def)

lemma handshake_zero_count:
  "parse_security_handshake env self (0 # rest) =
     \<lparr>outcome = Returned (RInt 0), proto = self,
      effects = [Log (LogParseSecurityHandshake (0 # rest)),
                 InternalError (0 # rest) (CannotParseSecurityHandshake (0 # rest))]\<rparr>"
  by (simp add: parse_security_handshake_def unpack_count)

lemma handshake_wrong_length:
  assumes "n \<noteq> 0" and "length types \<noteq> unat n"
  shows "parse_security_handshake env self (n # types) =
     \<lparr>outcome = Raised StructError, proto = self,
      effects = [Log (LogParseSecurityHandshake (n # types))]\<rparr>"
proof -
  have "uint n \<noteq> 0" using assms(1) by (simp add: uint_0_iff)
  then show ?thesis
    using assms(2) unpack_count [of "native env" n] unpack_types [of "native env" n types]
    by (simp add: parse_security_handshake_def)
qed

lemma handshake_exact_length:
  assumes "n \<noteq> 0" and "length types = unat n"
  shows "parse_security_handshake env self (n # types) =
     (let st = map (\<lambda>v. if v \<in> set (RFBAuth_values env) then RFBAuth v else OpaqueInt v)
                 (map uint types);
          ev1 = [Log (LogParseSecurityHandshake (n # types)),
                 Log (LogSecurityTypes (n # types) st)]
      in if uint (hd types) \<noteq> RFBAuth_NONE env then
           \<lparr>outcome = Returned (RInt 0), proto = self,
            effects = ev1 @ [InternalError (n # types) (SecurityTypeNotSupported (hd st))]\<rparr>
         else
           \<lparr>outcome = Returned (RInt (1 + uint n)),
            proto = self\<lparr>packet_parser := AwaitingSecurityResult\<rparr>,
            effects = ev1 @ [Send [0]]\<rparr>)"
proof -
  have nz: "uint n \<noteq> 0" using assms(1) by (simp add: uint_0_iff)
  from assms have ne: "types \<noteq> []" by (auto simp: unat_eq_0)
  then obtain t ts where types: "types = t # ts" by (cases types) auto
  show ?thesis
    using nz assms(2) unpack_count [of "native env" n] unpack_types [of "native env" n types]
    by (simp add: parse_security_handshake_def security_types_loop_map Let_def encode_B types
       )
qed

section \<open>The authentication result, case by case\<close>

lemma security_result_short:
  "length packet < 4 \<Longrightarrow>
     parse_security_result env self packet =
       \<lparr>outcome = Returned (RInt 0), proto = self, effects = []\<rparr>"
  by (simp add: parse_security_result_def)

lemma security_result_status:
  assumes "4 \<le> length packet"
  shows "decode (native env) Fmt_I (take 4 packet) = 0 \<longleftrightarrow> take 4 packet = [0, 0, 0, 0]"
proof -
  from assms have "length (take 4 packet) = 4" by simp
  then show ?thesis by (rule decode_I_zero)
qed

lemma security_result_denied:
  assumes "4 \<le> length packet" and "take 4 packet \<noteq> [0, 0, 0, 0]"
  shows "parse_security_result env self packet =
     \<lparr>outcome = Returned (RInt 0), proto = self,
      effects = [InternalError packet
                   (AuthenticationDenied (decode (native env) Fmt_I (take 4 packet)))]\<rparr>"
  using assms security_result_status [OF assms(1), of env]
  by (simp add: parse_security_result_def unpack_def calcsize_def)

lemma security_result_granted:
  assumes "4 \<le> length packet" and "take 4 packet = [0, 0, 0, 0]"
  shows "parse_security_result env self packet =
     \<lparr>outcome = Returned (RInt 4), proto = self\<lparr>packet_parser := AwaitingClientInit\<rparr>,
      effects = [Log (LogSecurityResultSuccess packet), Send [0]]\<rparr>"
  using assms security_result_status [OF assms(1), of env]
  by (simp add: parse_security_result_def unpack_def calcsize_def encode_B)

section \<open>The update parser, case by case\<close>

lemma rfb_header_fields:
  assumes "16 \<le> length packet"
  shows "unpack BigEndian [Fmt_H, Fmt_H, Fmt_H, Fmt_H, Fmt_i] (drop 4 (take 16 packet)) =
     Inr [decode BigEndian Fmt_H (take 2 (drop 4 packet)),
          decode BigEndian Fmt_H (take 2 (drop 6 packet)),
          decode BigEndian Fmt_H (take 2 (drop 8 packet)),
          decode BigEndian Fmt_H (take 2 (drop 10 packet)),
          decode BigEndian Fmt_i (take 4 (drop 12 packet))]"
  using assms by (simp add: unpack_def calcsize_def take_drop)

lemma parse_rfb_packet_short:
  "length packet \<le> 16 \<Longrightarrow>
     parse_rfb_packet env self packet =
       \<lparr>outcome = Returned (RInt 0), proto = self,
        effects = [Log (LogParseRfbPacket packet)]\<rparr>"
  by (simp add: parse_rfb_packet_def header_size_16)

lemma parse_rfb_packet_long:
  assumes "16 < length packet"
  shows "parse_rfb_packet env self packet =
     (let x = decode BigEndian Fmt_H (take 2 (drop 4 packet));
          y = decode BigEndian Fmt_H (take 2 (drop 6 packet));
          w = decode BigEndian Fmt_H (take 2 (drop 8 packet));
          h = decode BigEndian Fmt_H (take 2 (drop 10 packet));
          encoding = decode BigEndian Fmt_i (take 4 (drop 12 packet))
      in if take 4 packet \<noteq> [0, 0, 0, 1] then
           \<lparr>outcome = Returned (RInt 0), proto = self,
            effects = [Log (LogParseRfbPacket packet), Invalid UnknownPacket packet]\<rparr>
         else if encoding \<noteq> RFBEncoding_RAW env then
           \<lparr>outcome = Returned RNone, proto = self,
            effects = [Log (LogParseRfbPacket packet),
                       Invalid (InvalidEncoding encoding) packet]\<rparr>
         else if int (length packet) < 16 + w * h * 4 then
           \<lparr>outcome = Returned (RInt 0), proto = self,
            effects = [Log (LogParseRfbPacket packet), Log (LogScreenUpdate x y w h)]\<rparr>
         else
           \<lparr>outcome = Returned (RInt (16 + w * h * 4)), proto = self,
            effects = [Log (LogParseRfbPacket packet), Log (LogScreenUpdate x y w h)]\<rparr>)"
proof -
  from assms have "16 \<le> length packet" by simp
  note flds = rfb_header_fields [OF this]
  show ?thesis
    using assms
    by (simp add: parse_rfb_packet_def header_size_16 flds Let_def encode_def upt_2)
qed

lemma rfb_dimension_range:
  assumes "16 \<le> length packet"
  shows "0 \<le> decode BigEndian Fmt_H (take 2 (drop 8 packet))"
    and "decode BigEndian Fmt_H (take 2 (drop 8 packet)) \<le> 65535"
    and "0 \<le> decode BigEndian Fmt_H (take 2 (drop 10 packet))"
    and "decode BigEndian Fmt_H (take 2 (drop 10 packet)) \<le> 65535"
proof -
  from assms have "length (take 2 (drop 8 packet)) = 2" "length (take 2 (drop 10 packet)) = 2"
    by simp_all
  then show "0 \<le> decode BigEndian Fmt_H (take 2 (drop 8 packet))"
    and "decode BigEndian Fmt_H (take 2 (drop 8 packet)) \<le> 65535"
    and "0 \<le> decode BigEndian Fmt_H (take 2 (drop 10 packet))"
    and "decode BigEndian Fmt_H (take 2 (drop 10 packet)) \<le> 65535"
    using decode_H_range by blast+
qed

lemma payload_bound:
  fixes w h :: int
  assumes "0 \<le> w" "w \<le> 65535" "0 \<le> h" "h \<le> 65535"
  shows "0 \<le> w * h * 4" and "w * h * 4 \<le> 17179344900"
proof -
  show "0 \<le> w * h * 4" using assms by simp
  have "w * h \<le> 65535 * 65535"
    using assms by (intro mult_mono) simp_all
  then show "w * h * 4 \<le> 17179344900" by (simp add: mult.commute)
qed

section \<open>The server initialisation, case by case\<close>

lemma length_unpack_fields: "length (unpack_fields bo fs bs) = length fs"
  by (induction fs arbitrary: bs) simp_all

lemma unpack_fields_nonempty: "fs \<noteq> [] \<Longrightarrow> unpack_fields bo fs bs \<noteq> []"
  using length_unpack_fields [of bo fs bs] by auto

lemma encode_H_be: "encode BigEndian Fmt_H v = [word_of_int (v div 256), word_of_int v]"
  by (simp add: encode_def upt_2)

lemma encode_i_be:
  "encode BigEndian Fmt_i v =
     [word_of_int (v div 16777216), word_of_int (v div 65536), word_of_int (v div 256),
      word_of_int v]"
  by (simp add: encode_def upt_4)

lemma send_set_encodings_bytes:
  assumes "0 \<le> SetEncodings env" "SetEncodings env < 256"
    and "- 2147483648 \<le> RFBEncoding_RAW env" "RFBEncoding_RAW env < 2147483648"
  shows "send_set_encodings env =
     Inr [Send [word_of_int (SetEncodings env), 0, 0, 1,
                word_of_int (RFBEncoding_RAW env div 16777216),
                word_of_int (RFBEncoding_RAW env div 65536),
                word_of_int (RFBEncoding_RAW env div 256),
                word_of_int (RFBEncoding_RAW env)]]"
  using assms by (simp add: send_set_encodings_def encode_B encode_H_be encode_i_be)

lemma send_set_encodings_shape:
  "send_set_encodings env = Inr evs \<Longrightarrow> \<exists>p. evs = [Send p]"
  by (auto simp: send_set_encodings_def split: sum.splits)

lemma py_slice_name:
  assumes "0 \<le> k" and "int a + k \<le> int (length xs)"
  shows "py_slice xs (int a) (int a + k) = take (nat k) (drop a xs)"
proof -
  have "nat (int a + k) - a = nat k" using assms(1) by simp
  then show ?thesis
    using assms by (simp add: py_slice_def Let_def min_def)
qed

lemma client_init_short:
  "length packet < calcsize (CLIENT_INIT env) \<Longrightarrow>
     parse_client_init env self packet =
       \<lparr>outcome = Returned (RInt 0), proto = self,
        effects = [Log (LogParseClientInit packet)]\<rparr>"
  by (simp add: parse_client_init_def Let_def)

lemma client_init_long:
  assumes fmt: "CLIENT_INIT env \<noteq> []"
    and len: "calcsize (CLIENT_INIT env) \<le> length packet"
  shows "parse_client_init env self packet =
     (let ci_size = calcsize (CLIENT_INIT env);
          name_size = last (unpack_fields BigEndian (CLIENT_INIT env) (take ci_size packet))
      in if int (length packet) < int ci_size + name_size then
           \<lparr>outcome = Returned (RInt 0), proto = self,
            effects = [Log (LogParseClientInit packet)]\<rparr>
         else
           case send_set_encodings env of
             Inl e \<Rightarrow>
               \<lparr>outcome = Raised e, proto = self\<lparr>packet_parser := SteadyStateUpdates\<rparr>,
                effects = [Log (LogParseClientInit packet),
                           Log (LogSessionName (bytestostr env
                             (py_slice packet (int ci_size) (int ci_size + name_size))))]\<rparr>
           | Inr evs \<Rightarrow>
               \<lparr>outcome = Returned (RInt (int ci_size + name_size)),
                proto = self\<lparr>packet_parser := SteadyStateUpdates\<rparr>,
                effects = [Log (LogParseClientInit packet),
                           Log (LogSessionName (bytestostr env
                             (py_slice packet (int ci_size) (int ci_size + name_size))))] @ evs\<rparr>)"
proof -
  obtain f fs where flds:
    "unpack_fields BigEndian (CLIENT_INIT env) (take (calcsize (CLIENT_INIT env)) packet) = f # fs"
    using unpack_fields_nonempty [OF fmt] by (meson list.exhaust)
  have un: "unpack BigEndian (CLIENT_INIT env) (take (calcsize (CLIENT_INIT env)) packet) =
      Inr (f # fs)"
    using len flds by (simp add: unpack_def)
  show ?thesis
    using len
    by (cases "send_set_encodings env") (simp_all add: parse_client_init_def Let_def un flds)
qed

section \<open>What a call that aborts leaves behind\<close>

text \<open>
  For each parser: if the abort collaborator was called at all, it was called once,
  nothing was sent and the current parser is the one the call started with.
\<close>

lemma handshake_abort_frame:
  assumes "aborts (effects (parse_security_handshake env self packet)) \<noteq> []"
  shows "proto (parse_security_handshake env self packet) = self \<and>
         sends (effects (parse_security_handshake env self packet)) = [] \<and>
         length (aborts (effects (parse_security_handshake env self packet))) = 1"
  using assms
  by (auto simp: parse_security_handshake_def Let_def aborts_def sends_def
      split: sum.splits list.splits if_splits)

lemma security_result_abort_frame:
  assumes "aborts (effects (parse_security_result env self packet)) \<noteq> []"
  shows "proto (parse_security_result env self packet) = self \<and>
         sends (effects (parse_security_result env self packet)) = [] \<and>
         length (aborts (effects (parse_security_result env self packet))) = 1"
  using assms
  by (auto simp: parse_security_result_def Let_def aborts_def sends_def
      split: sum.splits list.splits if_splits)

lemma client_init_abort_frame:
  assumes "aborts (effects (parse_client_init env self packet)) \<noteq> []"
  shows "proto (parse_client_init env self packet) = self \<and>
         sends (effects (parse_client_init env self packet)) = [] \<and>
         length (aborts (effects (parse_client_init env self packet))) = 1"
  using assms
  by (auto simp: parse_client_init_def Let_def aborts_def sends_def
      dest!: send_set_encodings_shape split: sum.splits list.splits if_splits)

lemma rfb_packet_abort_frame:
  assumes "aborts (effects (parse_rfb_packet env self packet)) \<noteq> []"
  shows "proto (parse_rfb_packet env self packet) = self \<and>
         sends (effects (parse_rfb_packet env self packet)) = [] \<and>
         length (aborts (effects (parse_rfb_packet env self packet))) = 1"
proof (cases "16 < length packet")
  case True
  with assms show ?thesis
    by (auto simp: parse_rfb_packet_long Let_def aborts_def sends_def split: if_splits)
next
  case False
  then have "length packet \<le> 16" by simp
  with assms show ?thesis
    by (simp add: parse_rfb_packet_short aborts_def)
qed

lemma call_packet_parser_abort_frame:
  assumes "aborts (effects (call_packet_parser env self packet)) \<noteq> []"
  shows "proto (call_packet_parser env self packet) = self \<and>
         sends (effects (call_packet_parser env self packet)) = [] \<and>
         length (aborts (effects (call_packet_parser env self packet))) = 1"
proof (cases "packet_parser self")
  case AwaitingSecurityHandshake
  with assms handshake_abort_frame [of env self packet] show ?thesis
    by (simp add: call_packet_parser_def)
next
  case AwaitingSecurityResult
  with assms security_result_abort_frame [of env self packet] show ?thesis
    by (simp add: call_packet_parser_def)
next
  case AwaitingClientInit
  with assms client_init_abort_frame [of env self packet] show ?thesis
    by (simp add: call_packet_parser_def)
next
  case SteadyStateUpdates
  with assms rfb_packet_abort_frame [of env self packet] show ?thesis
    by (simp add: call_packet_parser_def)
qed

section \<open>Claims about the security handshake\<close>

text \<open>
  Claim C1 says that a buffer of fewer than \<open>1 + n\<close> bytes returns 0 with no side effect.
  The parser has no length check: it unpacks \<^verbatim>\<open>packet[:1]\<close> and then \<^verbatim>\<open>packet[1:]\<close>
  against a format of exactly \<open>n\<close> bytes, so the empty buffer and every buffer that holds
  the count \<open>n\<close> and fewer than \<open>n\<close> types raise \<^verbatim>\<open>struct.error\<close>. Nothing is sent, no
  abort is signalled and the current parser stays, but the call does not return.
\<close>

theorem security_handshake_short_buffer_raises:
  "parse_security_handshake env self [] =
     \<lparr>outcome = Raised StructError, proto = self,
      effects = [Log (LogParseSecurityHandshake [])]\<rparr> \<and>
   (length types < unat n \<longrightarrow>
      parse_security_handshake env self (n # types) =
        \<lparr>outcome = Raised StructError, proto = self,
         effects = [Log (LogParseSecurityHandshake (n # types))]\<rparr>)"
proof (intro conjI impI)
  show "parse_security_handshake env self [] =
     \<lparr>outcome = Raised StructError, proto = self,
      effects = [Log (LogParseSecurityHandshake [])]\<rparr>"
    by (rule handshake_empty)
next
  assume short: "length types < unat n"
  then have "n \<noteq> 0" by (auto simp: unat_eq_0)
  moreover from short have "length types \<noteq> unat n" by simp
  ultimately show "parse_security_handshake env self (n # types) =
        \<lparr>outcome = Raised StructError, proto = self,
         effects = [Log (LogParseSecurityHandshake (n # types))]\<rparr>"
    by (rule handshake_wrong_length)
qed

theorem security_handshake_short_buffer_raises_witness:
  "parse_security_handshake rfc6143_env \<lparr>packet_parser = AwaitingSecurityHandshake\<rparr> [2, 1] =
     \<lparr>outcome = Raised StructError, proto = \<lparr>packet_parser = AwaitingSecurityHandshake\<rparr>,
      effects = [Log (LogParseSecurityHandshake [2, 1])]\<rparr>"
  using security_handshake_short_buffer_raises
    [of rfc6143_env "\<lparr>packet_parser = AwaitingSecurityHandshake\<rparr>" "[1]" 2]
  by simp

text \<open>
  Claim C2 says that with \<open>1 + n\<close> bytes or more the parser answers, moves on and returns
  \<open>1 + n\<close>. With exactly \<open>1 + n\<close> bytes it does (see \<open>handshake_exact_length\<close>); with
  any byte after the \<open>n\<close> types, \<^verbatim>\<open>packet[1:]\<close> is longer than the format and the call
  raises \<^verbatim>\<open>struct.error\<close> instead of leaving the rest for the next parser.
\<close>

theorem security_handshake_extra_bytes_raises:
  "n \<noteq> 0 \<Longrightarrow> length types = unat n \<Longrightarrow> extra \<noteq> [] \<Longrightarrow>
     parse_security_handshake env self (n # types @ extra) =
       \<lparr>outcome = Raised StructError, proto = self,
        effects = [Log (LogParseSecurityHandshake (n # types @ extra))]\<rparr>"
  by (rule handshake_wrong_length) simp_all

theorem security_handshake_extra_bytes_raises_witness:
  "parse_security_handshake rfc6143_env \<lparr>packet_parser = AwaitingSecurityHandshake\<rparr>
       [1, 1, 0, 0, 0, 0] =
     \<lparr>outcome = Raised StructError, proto = \<lparr>packet_parser = AwaitingSecurityHandshake\<rparr>,
      effects = [Log (LogParseSecurityHandshake [1, 1, 0, 0, 0, 0])]\<rparr>"
  using security_handshake_extra_bytes_raises
    [of 1 "[1]" "[0, 0, 0, 0]" rfc6143_env "\<lparr>packet_parser = AwaitingSecurityHandshake\<rparr>"]
  by simp

text \<open>
  Claim C5. For a buffer that holds the count \<open>n \<ge> 1\<close> and exactly \<open>n\<close> types, the list
  the parser builds keeps every code: a member of the enumeration where there is one, the
  plain integer otherwise, so its integer values are the advertised bytes. The abort
  collaborator is called if and only if the first advertised type differs from
  \<^verbatim>\<open>RFBAuth.NONE\<close>, whatever the other types are; it is called at most once, and when it
  is called nothing is sent, the current parser stays and the call returns 0. Otherwise
  the byte 0 is sent, the security-result parser becomes current and \<open>1 + n\<close> is returned.
\<close>

theorem security_handshake_first_type:
  assumes "n \<noteq> 0" and "length types = unat n"
  shows
    "let st = map (\<lambda>b. if uint b \<in> set (RFBAuth_values env) then RFBAuth (uint b)
                        else OpaqueInt (uint b)) types;
         r = parse_security_handshake env self (n # types)
     in map sec_int st = map uint types \<and>
        (uint (hd types) \<noteq> RFBAuth_NONE env \<longrightarrow>
           r = \<lparr>outcome = Returned (RInt 0), proto = self,
                effects = [Log (LogParseSecurityHandshake (n # types)),
                           Log (LogSecurityTypes (n # types) st),
                           InternalError (n # types) (SecurityTypeNotSupported (hd st))]\<rparr>) \<and>
        (uint (hd types) = RFBAuth_NONE env \<longrightarrow>
           r = \<lparr>outcome = Returned (RInt (1 + uint n)),
                proto = self\<lparr>packet_parser := AwaitingSecurityResult\<rparr>,
                effects = [Log (LogParseSecurityHandshake (n # types)),
                           Log (LogSecurityTypes (n # types) st),
                           Send [0]]\<rparr>) \<and>
        (aborts (effects r) \<noteq> [] \<longleftrightarrow> uint (hd types) \<noteq> RFBAuth_NONE env) \<and>
        length (aborts (effects r)) \<le> 1 \<and>
        (aborts (effects r) \<noteq> [] \<longrightarrow> sends (effects r) = [])"
proof -
  have ints: "map sec_int (map (\<lambda>b. if uint b \<in> set (RFBAuth_values env) then RFBAuth (uint b)
                        else OpaqueInt (uint b)) types) = map uint types"
    by (induction types) simp_all
  show ?thesis
    using ints by (simp add: handshake_exact_length [OF assms] Let_def comp_def aborts_def sends_def)
qed

theorem security_handshake_first_type_witness:
  "parse_security_handshake rfc6143_env \<lparr>packet_parser = AwaitingSecurityHandshake\<rparr> [2, 77, 1] =
     \<lparr>outcome = Returned (RInt 0), proto = \<lparr>packet_parser = AwaitingSecurityHandshake\<rparr>,
      effects = [Log (LogParseSecurityHandshake [2, 77, 1]),
                 Log (LogSecurityTypes [2, 77, 1] [OpaqueInt 77, RFBAuth 1]),
                 InternalError [2, 77, 1] (SecurityTypeNotSupported (OpaqueInt 77))]\<rparr> \<and>
   parse_security_handshake rfc6143_env \<lparr>packet_parser = AwaitingSecurityHandshake\<rparr> [2, 1, 77] =
     \<lparr>outcome = Returned (RInt 3), proto = \<lparr>packet_parser = AwaitingSecurityResult\<rparr>,
      effects = [Log (LogParseSecurityHandshake [2, 1, 77]),
                 Log (LogSecurityTypes [2, 1, 77] [RFBAuth 1, OpaqueInt 77]),
                 Send [0]]\<rparr>"
  using security_handshake_first_type
      [of 2 "[77, 1]" rfc6143_env "\<lparr>packet_parser = AwaitingSecurityHandshake\<rparr>"]
    security_handshake_first_type
      [of 2 "[1, 77]" rfc6143_env "\<lparr>packet_parser = AwaitingSecurityHandshake\<rparr>"]
  by (simp add: rfc6143_env_def Let_def)

section \<open>The authentication result\<close>

text \<open>
  Claim C4. In the state that awaits the security result, a buffer of fewer than four
  bytes returns 0 and does nothing else. With four bytes or more, a status whose bytes
  are not all zero is handed to the abort collaborator (authentication denied, with the
  decoded status, which is not 0), nothing is sent, the parser stays where it is and the
  call returns 0; an all-zero status sends exactly one message, the single byte 0 (share
  is false), makes the client-init parser current and returns 4.
\<close>

theorem security_result_ok:
  "(length packet < 4 \<longrightarrow>
      parse_security_result env self packet =
        \<lparr>outcome = Returned (RInt 0), proto = self, effects = []\<rparr>) \<and>
   (4 \<le> length packet \<and> take 4 packet \<noteq> [0, 0, 0, 0] \<longrightarrow>
      decode (native env) Fmt_I (take 4 packet) \<noteq> 0 \<and>
      parse_security_result env self packet =
        \<lparr>outcome = Returned (RInt 0), proto = self,
         effects = [InternalError packet
                      (AuthenticationDenied (decode (native env) Fmt_I (take 4 packet)))]\<rparr>) \<and>
   (4 \<le> length packet \<and> take 4 packet = [0, 0, 0, 0] \<longrightarrow>
      parse_security_result env self packet =
        \<lparr>outcome = Returned (RInt 4), proto = self\<lparr>packet_parser := AwaitingClientInit\<rparr>,
         effects = [Log (LogSecurityResultSuccess packet), Send [0]]\<rparr>)"
  using security_result_short [of packet env self] security_result_denied [of packet env self]
    security_result_granted [of packet env self] security_result_status [of packet env]
  by blast

theorem security_result_ok_witness:
  "parse_security_result rfc6143_env \<lparr>packet_parser = AwaitingSecurityResult\<rparr> [0, 0, 0] =
     \<lparr>outcome = Returned (RInt 0), proto = \<lparr>packet_parser = AwaitingSecurityResult\<rparr>,
      effects = []\<rparr> \<and>
   parse_security_result rfc6143_env \<lparr>packet_parser = AwaitingSecurityResult\<rparr> [0, 0, 0, 1, 9] =
     \<lparr>outcome = Returned (RInt 0), proto = \<lparr>packet_parser = AwaitingSecurityResult\<rparr>,
      effects = [InternalError [0, 0, 0, 1, 9] (AuthenticationDenied 16777216)]\<rparr> \<and>
   parse_security_result rfc6143_env \<lparr>packet_parser = AwaitingSecurityResult\<rparr> [0, 0, 0, 0, 9] =
     \<lparr>outcome = Returned (RInt 4), proto = \<lparr>packet_parser = AwaitingClientInit\<rparr>,
      effects = [Log (LogSecurityResultSuccess [0, 0, 0, 0, 9]), Send [0]]\<rparr>"
  using security_result_ok [of "[0, 0, 0]" rfc6143_env "\<lparr>packet_parser = AwaitingSecurityResult\<rparr>"]
    security_result_ok [of "[0, 0, 0, 1, 9]" rfc6143_env "\<lparr>packet_parser = AwaitingSecurityResult\<rparr>"]
    security_result_ok [of "[0, 0, 0, 0, 9]" rfc6143_env "\<lparr>packet_parser = AwaitingSecurityResult\<rparr>"]
  by (simp add: rfc6143_env_def decode_def be_nat_4)

section \<open>The update parser on a bare header\<close>

text \<open>
  Claim C9. The update parser compares the buffer length with the header size by
  \<open>\<le>\<close>: a buffer of exactly sixteen bytes returns 0 whatever it holds, with no abort,
  no send and no change of the current parser. A rectangle of width or height 0 is
  complete with those sixteen bytes, so feeding them again, any number of times, leaves
  the parser where it was and never consumes them.
\<close>

theorem rfb_packet_header_only:
  "length packet = 16 \<Longrightarrow>
     parse_rfb_packet env self packet =
       \<lparr>outcome = Returned (RInt 0), proto = self,
        effects = [Log (LogParseRfbPacket packet)]\<rparr> \<and>
     ((\<lambda>s. proto (parse_rfb_packet env s packet)) ^^ k) self = self"
proof -
  assume len: "length packet = 16"
  have one: "parse_rfb_packet env s packet =
       \<lparr>outcome = Returned (RInt 0), proto = s, effects = [Log (LogParseRfbPacket packet)]\<rparr>" for s
    using len by (simp add: parse_rfb_packet_short)
  have "((\<lambda>s. proto (parse_rfb_packet env s packet)) ^^ k) self = self"
    by (induction k) (simp_all add: one)
  with one show ?thesis by simp
qed

theorem rfb_packet_header_only_witness:
  "length [0, 0, 0, 1, 0, 0, 0, 0, 0, 0, 0, 2, 0, 0, 0, 0 :: byte] = 16 \<and>
   parse_rfb_packet rfc6143_env \<lparr>packet_parser = SteadyStateUpdates\<rparr>
       [0, 0, 0, 1, 0, 0, 0, 0, 0, 0, 0, 2, 0, 0, 0, 0] =
     \<lparr>outcome = Returned (RInt 0), proto = \<lparr>packet_parser = SteadyStateUpdates\<rparr>,
      effects = [Log (LogParseRfbPacket [0, 0, 0, 1, 0, 0, 0, 0, 0, 0, 0, 2, 0, 0, 0, 0])]\<rparr>"
  using rfb_packet_header_only [of "[0, 0, 0, 1, 0, 0, 0, 0, 0, 0, 0, 2, 0, 0, 0, 0]"
      rfc6143_env "\<lparr>packet_parser = SteadyStateUpdates\<rparr>" 0]
  by simp

section \<open>The payload length of an update rectangle\<close>

text \<open>
  Claim C3, as amended. The update parser has no bound on the payload length and rejects
  no rectangle for its size. For a buffer that holds the sixteen-byte header, with the
  expected marker and the raw encoding, width and height are the two unsigned 16-bit
  fields of the header, so each lies between 0 and 65535; the payload length
  \<open>w * h * 4\<close> is computed on unbounded integers, does not wrap, and lies between 0 and
  17179344900 (4 * 65535 * 65535). The parser returns 0 while the buffer is exactly the
  header (sixteen bytes, whatever the rectangle) or shorter than \<open>16 + w * h * 4\<close>, and
  returns exactly \<open>16 + w * h * 4\<close> otherwise; in every case there is no abort, no send
  and the current parser is unchanged. Once the buffer is longer than the header the
  rectangle is logged as a screen update.
\<close>

theorem rfb_packet_payload_threshold:
  assumes "16 \<le> length packet"
    and "take 4 packet = [0, 0, 0, 1]"
    and "decode BigEndian Fmt_i (take 4 (drop 12 packet)) = RFBEncoding_RAW env"
  shows
    "let x = decode BigEndian Fmt_H (take 2 (drop 4 packet));
         y = decode BigEndian Fmt_H (take 2 (drop 6 packet));
         w = decode BigEndian Fmt_H (take 2 (drop 8 packet));
         h = decode BigEndian Fmt_H (take 2 (drop 10 packet));
         r = parse_rfb_packet env self packet
     in 0 \<le> w \<and> w \<le> 65535 \<and> 0 \<le> h \<and> h \<le> 65535 \<and>
        0 \<le> w * h * 4 \<and> w * h * 4 \<le> 17179344900 \<and>
        outcome r =
          Returned (RInt (if length packet = 16 \<or> int (length packet) < 16 + w * h * 4 then 0
                          else 16 + w * h * 4)) \<and>
        proto r = self \<and> sends (effects r) = [] \<and> aborts (effects r) = [] \<and>
        (16 < length packet \<longrightarrow>
           effects r = [Log (LogParseRfbPacket packet), Log (LogScreenUpdate x y w h)])"
proof -
  note r = rfb_dimension_range [OF assms(1)]
  note b = payload_bound [OF r]
  show ?thesis
  proof (cases "16 < length packet")
    case True
    then show ?thesis
      using assms(2,3) r b
      by (simp add: parse_rfb_packet_long [OF True] Let_def sends_def aborts_def)
  next
    case False
    with assms(1) have len: "length packet = 16" by simp
    then have "length packet \<le> 16" by simp
    then show ?thesis
      using len r b by (simp add: parse_rfb_packet_short Let_def sends_def aborts_def)
  qed
qed

theorem rfb_packet_payload_threshold_witness:
  "parse_rfb_packet rfc6143_env \<lparr>packet_parser = SteadyStateUpdates\<rparr>
       [0, 0, 0, 1, 0, 3, 0, 5, 0, 2, 0, 2, 0, 0, 0, 0, 7, 7, 7, 7, 7, 7, 7, 7, 7, 7, 7, 7, 7, 7, 7, 7, 9] =
     \<lparr>outcome = Returned (RInt 32), proto = \<lparr>packet_parser = SteadyStateUpdates\<rparr>,
      effects = [Log (LogParseRfbPacket
                   [0, 0, 0, 1, 0, 3, 0, 5, 0, 2, 0, 2, 0, 0, 0, 0, 7, 7, 7, 7, 7, 7, 7, 7, 7, 7, 7, 7, 7, 7, 7, 7, 9]),
                 Log (LogScreenUpdate 3 5 2 2)]\<rparr> \<and>
   outcome (parse_rfb_packet rfc6143_env \<lparr>packet_parser = SteadyStateUpdates\<rparr>
       [0, 0, 0, 1, 0, 0, 0, 0, 0, 0, 0, 2, 0, 0, 0, 0]) = Returned (RInt 0) \<and>
   proto (parse_rfb_packet rfc6143_env \<lparr>packet_parser = SteadyStateUpdates\<rparr>
       [0, 0, 0, 1, 0, 0, 0, 0, 0, 0, 0, 2, 0, 0, 0, 0]) = \<lparr>packet_parser = SteadyStateUpdates\<rparr> \<and>
   aborts (effects (parse_rfb_packet rfc6143_env \<lparr>packet_parser = SteadyStateUpdates\<rparr>
       [0, 0, 0, 1, 0, 0, 0, 0, 0, 0, 0, 2, 0, 0, 0, 0])) = []"
proof -
  have long: "parse_rfb_packet rfc6143_env \<lparr>packet_parser = SteadyStateUpdates\<rparr>
       [0, 0, 0, 1, 0, 3, 0, 5, 0, 2, 0, 2, 0, 0, 0, 0, 7, 7, 7, 7, 7, 7, 7, 7, 7, 7, 7, 7, 7, 7, 7, 7, 9] =
     \<lparr>outcome = Returned (RInt 32), proto = \<lparr>packet_parser = SteadyStateUpdates\<rparr>,
      effects = [Log (LogParseRfbPacket
                   [0, 0, 0, 1, 0, 3, 0, 5, 0, 2, 0, 2, 0, 0, 0, 0, 7, 7, 7, 7, 7, 7, 7, 7, 7, 7, 7, 7, 7, 7, 7, 7, 9]),
                 Log (LogScreenUpdate 3 5 2 2)]\<rparr>"
    using rfb_packet_payload_threshold
      [of "[0, 0, 0, 1, 0, 3, 0, 5, 0, 2, 0, 2, 0, 0, 0, 0, 7, 7, 7, 7, 7, 7, 7, 7, 7, 7, 7, 7, 7, 7, 7, 7, 9]"
        rfc6143_env "\<lparr>packet_parser = SteadyStateUpdates\<rparr>"]
    by (cases "parse_rfb_packet rfc6143_env \<lparr>packet_parser = SteadyStateUpdates\<rparr>
       [0, 0, 0, 1, 0, 3, 0, 5, 0, 2, 0, 2, 0, 0, 0, 0, 7, 7, 7, 7, 7, 7, 7, 7, 7, 7, 7, 7, 7, 7, 7, 7, 9]")
      (simp add: rfc6143_env_def decode_def be_nat_def Let_def)
  show ?thesis
    using long rfb_packet_payload_threshold
      [of "[0, 0, 0, 1, 0, 0, 0, 0, 0, 0, 0, 2, 0, 0, 0, 0]"
        rfc6143_env "\<lparr>packet_parser = SteadyStateUpdates\<rparr>"]
    by (simp add: rfc6143_env_def decode_def be_nat_def Let_def)
qed

text \<open>
  The claim as stated fails: a header that announces a rectangle of 65535 by 65535 pixels
  is accepted without any abort, and the parser returns 0 to wait for a payload of
  17179344900 bytes (a message of 17179344916 bytes).
\<close>

theorem rfb_packet_unbounded_payload_counterexample:
  "parse_rfb_packet rfc6143_env \<lparr>packet_parser = SteadyStateUpdates\<rparr>
       [0, 0, 0, 1, 0, 0, 0, 0, 255, 255, 255, 255, 0, 0, 0, 0, 0] =
     \<lparr>outcome = Returned (RInt 0), proto = \<lparr>packet_parser = SteadyStateUpdates\<rparr>,
      effects = [Log (LogParseRfbPacket [0, 0, 0, 1, 0, 0, 0, 0, 255, 255, 255, 255, 0, 0, 0, 0, 0]),
                 Log (LogScreenUpdate 0 0 65535 65535)]\<rparr> \<and>
   aborts (effects (parse_rfb_packet rfc6143_env \<lparr>packet_parser = SteadyStateUpdates\<rparr>
       [0, 0, 0, 1, 0, 0, 0, 0, 255, 255, 255, 255, 0, 0, 0, 0, 0])) = [] \<and>
   (16 :: int) + 65535 * 65535 * 4 = 17179344916"
  by (simp add: parse_rfb_packet_long rfc6143_env_def decode_def be_nat_def Let_def aborts_def)

section \<open>Encodings other than raw\<close>

text \<open>
  Claim C7. In a buffer longer than the sixteen-byte header that starts with the expected
  marker, an encoding field that differs from \<^verbatim>\<open>RFBEncoding.RAW\<close> is handed to the
  \<^verbatim>\<open>invalid\<close> collaborator together with the buffer; the rectangle is not logged as a
  screen update, nothing is sent, the current parser stays, and the call returns \<^verbatim>\<open>None\<close>.
  The other branches that do not consume return the integer 0: a wrong marker (with one
  call of \<^verbatim>\<open>invalid\<close>), a buffer of at most sixteen bytes, and a raw rectangle whose
  payload is not complete. Whatever the buffer, a header whose encoding field is not raw
  is never consumed: the call returns 0 or \<^verbatim>\<open>None\<close>.
\<close>

theorem rfb_packet_non_raw_encoding:
  "let encoding = decode BigEndian Fmt_i (take 4 (drop 12 packet));
       w = decode BigEndian Fmt_H (take 2 (drop 8 packet));
       h = decode BigEndian Fmt_H (take 2 (drop 10 packet));
       r = parse_rfb_packet env self packet
   in (16 < length packet \<and> take 4 packet = [0, 0, 0, 1] \<and> encoding \<noteq> RFBEncoding_RAW env \<longrightarrow>
         r = \<lparr>outcome = Returned RNone, proto = self,
              effects = [Log (LogParseRfbPacket packet),
                         Invalid (InvalidEncoding encoding) packet]\<rparr>) \<and>
      (16 < length packet \<and> take 4 packet \<noteq> [0, 0, 0, 1] \<longrightarrow>
         r = \<lparr>outcome = Returned (RInt 0), proto = self,
              effects = [Log (LogParseRfbPacket packet), Invalid UnknownPacket packet]\<rparr>) \<and>
      (length packet \<le> 16 \<longrightarrow>
         r = \<lparr>outcome = Returned (RInt 0), proto = self,
              effects = [Log (LogParseRfbPacket packet)]\<rparr>) \<and>
      (16 < length packet \<and> take 4 packet = [0, 0, 0, 1] \<and> encoding = RFBEncoding_RAW env \<and>
       int (length packet) < 16 + w * h * 4 \<longrightarrow>
         outcome r = Returned (RInt 0) \<and> proto r = self \<and> aborts (effects r) = []) \<and>
      (encoding \<noteq> RFBEncoding_RAW env \<longrightarrow>
         (outcome r = Returned (RInt 0) \<or> outcome r = Returned RNone) \<and>
         proto r = self \<and> sends (effects r) = [])"
proof (cases "16 < length packet")
  case True
  then show ?thesis
    by (simp add: parse_rfb_packet_long Let_def aborts_def sends_def)
next
  case False
  then have "length packet \<le> 16" by simp
  then show ?thesis
    by (simp add: parse_rfb_packet_short Let_def aborts_def sends_def)
qed

theorem rfb_packet_non_raw_encoding_witness:
  "parse_rfb_packet rfc6143_env \<lparr>packet_parser = SteadyStateUpdates\<rparr>
       [0, 0, 0, 1, 0, 0, 0, 0, 0, 2, 0, 2, 0, 0, 0, 1, 9] =
     \<lparr>outcome = Returned RNone, proto = \<lparr>packet_parser = SteadyStateUpdates\<rparr>,
      effects = [Log (LogParseRfbPacket [0, 0, 0, 1, 0, 0, 0, 0, 0, 2, 0, 2, 0, 0, 0, 1, 9]),
                 Invalid (InvalidEncoding 1) [0, 0, 0, 1, 0, 0, 0, 0, 0, 2, 0, 2, 0, 0, 0, 1, 9]]\<rparr> \<and>
   parse_rfb_packet rfc6143_env \<lparr>packet_parser = SteadyStateUpdates\<rparr>
       [3, 0, 0, 1, 0, 0, 0, 0, 0, 2, 0, 2, 0, 0, 0, 0, 9] =
     \<lparr>outcome = Returned (RInt 0), proto = \<lparr>packet_parser = SteadyStateUpdates\<rparr>,
      effects = [Log (LogParseRfbPacket [3, 0, 0, 1, 0, 0, 0, 0, 0, 2, 0, 2, 0, 0, 0, 0, 9]),
                 Invalid UnknownPacket [3, 0, 0, 1, 0, 0, 0, 0, 0, 2, 0, 2, 0, 0, 0, 0, 9]]\<rparr> \<and>
   parse_rfb_packet rfc6143_env \<lparr>packet_parser = SteadyStateUpdates\<rparr> [0, 0, 0, 1, 0] =
     \<lparr>outcome = Returned (RInt 0), proto = \<lparr>packet_parser = SteadyStateUpdates\<rparr>,
      effects = [Log (LogParseRfbPacket [0, 0, 0, 1, 0])]\<rparr> \<and>
   outcome (parse_rfb_packet rfc6143_env \<lparr>packet_parser = SteadyStateUpdates\<rparr>
       [0, 0, 0, 1, 0, 0, 0, 0, 0, 2, 0, 2, 0, 0, 0, 0, 9]) = Returned (RInt 0)"
  using rfb_packet_non_raw_encoding
      [of "[0, 0, 0, 1, 0, 0, 0, 0, 0, 2, 0, 2, 0, 0, 0, 1, 9]" rfc6143_env
        "\<lparr>packet_parser = SteadyStateUpdates\<rparr>"]
    rfb_packet_non_raw_encoding
      [of "[3, 0, 0, 1, 0, 0, 0, 0, 0, 2, 0, 2, 0, 0, 0, 0, 9]" rfc6143_env
        "\<lparr>packet_parser = SteadyStateUpdates\<rparr>"]
    rfb_packet_non_raw_encoding
      [of "[0, 0, 0, 1, 0]" rfc6143_env "\<lparr>packet_parser = SteadyStateUpdates\<rparr>"]
    rfb_packet_non_raw_encoding
      [of "[0, 0, 0, 1, 0, 0, 0, 0, 0, 2, 0, 2, 0, 0, 0, 0, 9]" rfc6143_env
        "\<lparr>packet_parser = SteadyStateUpdates\<rparr>"]
  by (simp add: rfc6143_env_def decode_def be_nat_def Let_def)

section \<open>The server initialisation\<close>

text \<open>
  Claim C6. Let \<open>ci_size\<close> be the size of the \<^verbatim>\<open>CLIENT_INIT\<close> header and \<open>name_size\<close> its last
  field. While the buffer is shorter than the header, or shorter than
  \<open>ci_size + name_size\<close>, the parser returns 0, sends nothing and stays current. When the
  buffer holds \<open>ci_size + name_size\<close> bytes or more, the parser logs the decoded name (the
  \<open>name_size\<close> bytes after the header; logging is the only record the code makes of it),
  sends one message of eight bytes, namely the SetEncodings message type, one zero padding byte,
  the count 1 on 16 bits big-endian and the raw encoding code on 32 bits big-endian,
  makes the update parser current and returns \<open>ci_size + name_size\<close>. However the bytes
  arrive, every shorter prefix of such a buffer returns 0 with the parser unchanged, so
  the result after the last delivery is that of a single delivery. The hypotheses say
  that the constants, which are not among the sources, fit the fields they are packed
  into and that the header format is not empty.
\<close>

theorem client_init_ok:
  assumes "CLIENT_INIT env \<noteq> []"
    and "0 \<le> SetEncodings env" and "SetEncodings env < 256"
    and "- 2147483648 \<le> RFBEncoding_RAW env" and "RFBEncoding_RAW env < 2147483648"
  shows
    "let ci_size = calcsize (CLIENT_INIT env);
         name_size = last (unpack_fields BigEndian (CLIENT_INIT env) (take ci_size packet));
         name = py_slice packet (int ci_size) (int ci_size + name_size)
     in (length packet < ci_size \<or> int (length packet) < int ci_size + name_size \<longrightarrow>
           parse_client_init env self packet =
             \<lparr>outcome = Returned (RInt 0), proto = self,
              effects = [Log (LogParseClientInit packet)]\<rparr>) \<and>
        (ci_size \<le> length packet \<and> int ci_size + name_size \<le> int (length packet) \<longrightarrow>
           parse_client_init env self packet =
             \<lparr>outcome = Returned (RInt (int ci_size + name_size)),
              proto = self\<lparr>packet_parser := SteadyStateUpdates\<rparr>,
              effects = [Log (LogParseClientInit packet),
                         Log (LogSessionName (bytestostr env name)),
                         Send [word_of_int (SetEncodings env), 0, 0, 1,
                               word_of_int (RFBEncoding_RAW env div 16777216),
                               word_of_int (RFBEncoding_RAW env div 65536),
                               word_of_int (RFBEncoding_RAW env div 256),
                               word_of_int (RFBEncoding_RAW env)]]\<rparr> \<and>
           (0 \<le> name_size \<longrightarrow> name = take (nat name_size) (drop ci_size packet)) \<and>
           (\<forall>k. int k < int ci_size + name_size \<longrightarrow>
              parse_client_init env self (take k packet) =
                \<lparr>outcome = Returned (RInt 0), proto = self,
                 effects = [Log (LogParseClientInit (take k packet))]\<rparr>))"
proof -
  define ci_size where "ci_size = calcsize (CLIENT_INIT env)"
  define name_size where
    "name_size = last (unpack_fields BigEndian (CLIENT_INIT env) (take ci_size packet))"
  note sse = send_set_encodings_bytes [OF assms(2-5)]
  have waiting: "parse_client_init env self packet =
      \<lparr>outcome = Returned (RInt 0), proto = self, effects = [Log (LogParseClientInit packet)]\<rparr>"
    if "length packet < ci_size \<or> int (length packet) < int ci_size + name_size"
  proof (cases "length packet < ci_size")
    case True
    then show ?thesis by (simp add: client_init_short ci_size_def)
  next
    case False
    with that have "int (length packet) < int ci_size + name_size" by simp
    with False show ?thesis
      by (simp add: client_init_long [OF assms(1)] Let_def ci_size_def name_size_def)
  qed
  have consumed: "parse_client_init env self packet =
      \<lparr>outcome = Returned (RInt (int ci_size + name_size)),
       proto = self\<lparr>packet_parser := SteadyStateUpdates\<rparr>,
       effects = [Log (LogParseClientInit packet),
                  Log (LogSessionName (bytestostr env
                    (py_slice packet (int ci_size) (int ci_size + name_size)))),
                  Send [word_of_int (SetEncodings env), 0, 0, 1,
                        word_of_int (RFBEncoding_RAW env div 16777216),
                        word_of_int (RFBEncoding_RAW env div 65536),
                        word_of_int (RFBEncoding_RAW env div 256),
                        word_of_int (RFBEncoding_RAW env)]]\<rparr>"
    if "ci_size \<le> length packet" "int ci_size + name_size \<le> int (length packet)"
    using that
    by (simp add: client_init_long [OF assms(1)] Let_def ci_size_def name_size_def sse)
  have name: "py_slice packet (int ci_size) (int ci_size + name_size) =
      take (nat name_size) (drop ci_size packet)"
    if "int ci_size + name_size \<le> int (length packet)" "0 \<le> name_size"
    using that by (simp add: py_slice_name)
  have prefix: "parse_client_init env self (take k packet) =
      \<lparr>outcome = Returned (RInt 0), proto = self,
       effects = [Log (LogParseClientInit (take k packet))]\<rparr>"
    if full: "ci_size \<le> length packet" "int ci_size + name_size \<le> int (length packet)"
      and k: "int k < int ci_size + name_size" for k
  proof (cases "k < ci_size")
    case True
    then have "length (take k packet) < calcsize (CLIENT_INIT env)"
      by (simp add: ci_size_def)
    then show ?thesis by (rule client_init_short)
  next
    case False
    then have "ci_size \<le> k" by simp
    moreover from k full have "k \<le> length packet" by linarith
    ultimately have len: "calcsize (CLIENT_INIT env) \<le> length (take k packet)"
      and hdr: "take ci_size (take k packet) = take ci_size packet"
      and lk: "length (take k packet) = k"
      by (simp_all add: ci_size_def min_def)
    show ?thesis
      using k hdr lk
      by (simp add: client_init_long [OF assms(1) len] Let_def name_size_def
          ci_size_def [symmetric])
  qed
  show ?thesis
    unfolding Let_def ci_size_def [symmetric] name_size_def [symmetric]
    using waiting consumed name prefix by blast
qed

theorem client_init_ok_witness:
  "parse_client_init rfc6143_env \<lparr>packet_parser = AwaitingClientInit\<rparr>
       [3, 32, 2, 88, 32, 24, 0, 1, 0, 255, 0, 255, 0, 255, 16, 8, 0, 0, 0, 0, 0, 0, 0, 2,
        104, 105, 7] =
     \<lparr>outcome = Returned (RInt 26), proto = \<lparr>packet_parser = SteadyStateUpdates\<rparr>,
      effects = [Log (LogParseClientInit
                   [3, 32, 2, 88, 32, 24, 0, 1, 0, 255, 0, 255, 0, 255, 16, 8, 0, 0, 0, 0,
                    0, 0, 0, 2, 104, 105, 7]),
                 Log (LogSessionName ''hi''),
                 Send [2, 0, 0, 1, 0, 0, 0, 0]]\<rparr> \<and>
   parse_client_init rfc6143_env \<lparr>packet_parser = AwaitingClientInit\<rparr>
       [3, 32, 2, 88, 32, 24, 0, 1, 0, 255, 0, 255, 0, 255, 16, 8, 0, 0, 0, 0, 0, 0, 0, 2,
        104] =
     \<lparr>outcome = Returned (RInt 0), proto = \<lparr>packet_parser = AwaitingClientInit\<rparr>,
      effects = [Log (LogParseClientInit
                   [3, 32, 2, 88, 32, 24, 0, 1, 0, 255, 0, 255, 0, 255, 16, 8, 0, 0, 0, 0,
                    0, 0, 0, 2, 104])]\<rparr>"
proof -
  have env: "CLIENT_INIT rfc6143_env \<noteq> []" "0 \<le> SetEncodings rfc6143_env"
    "SetEncodings rfc6143_env < 256" "- 2147483648 \<le> RFBEncoding_RAW rfc6143_env"
    "RFBEncoding_RAW rfc6143_env < 2147483648"
    by (simp_all add: rfc6143_env_def)
  have sz: "calcsize (CLIENT_INIT rfc6143_env) = 24"
    by (simp add: rfc6143_env_def calcsize_def)
  have fmt: "CLIENT_INIT rfc6143_env =
      [Fmt_H, Fmt_H, Fmt_B, Fmt_B, Fmt_B, Fmt_B, Fmt_H, Fmt_H, Fmt_H,
       Fmt_B, Fmt_B, Fmt_B, Fmt_B, Fmt_B, Fmt_B, Fmt_I]"
    by (simp add: rfc6143_env_def)
  have vals: "SetEncodings rfc6143_env = 2" "RFBEncoding_RAW rfc6143_env = 0"
    by (simp_all add: rfc6143_env_def)
  have name: "bytestostr rfc6143_env [104, 105] = ''hi''"
    by code_simp
  show ?thesis
    using client_init_ok [OF env, of
        "[3, 32, 2, 88, 32, 24, 0, 1, 0, 255, 0, 255, 0, 255, 16, 8, 0, 0, 0, 0, 0, 0, 0, 2,
          104, 105, 7]" "\<lparr>packet_parser = AwaitingClientInit\<rparr>"]
      client_init_ok [OF env, of
        "[3, 32, 2, 88, 32, 24, 0, 1, 0, 255, 0, 255, 0, 255, 16, 8, 0, 0, 0, 0, 0, 0, 0, 2,
          104]" "\<lparr>packet_parser = AwaitingClientInit\<rparr>"]
    by (simp add: fmt calcsize_def vals name Let_def decode_def be_nat_def py_slice_def)
qed

section \<open>Fatal paths\<close>

text \<open>
  What the parsers themselves do on a fatal path. Whatever parser is current and whatever
  the buffer, a call that reaches the abort collaborator (\<^verbatim>\<open>_internal_error\<close> or
  \<^verbatim>\<open>invalid\<close>) reaches it exactly once, calls no \<^verbatim>\<open>send\<close> and makes no assignment to
  \<^verbatim>\<open>_packet_parser\<close>. The five fatal paths are such calls: a security-type count of zero,
  a complete security-type list whose first type is not \<^verbatim>\<open>RFBAuth.NONE\<close>, an
  authentication status that is not zero, an update longer than the header whose first
  four bytes are not the expected marker, and an update with the expected marker whose
  encoding is not raw. The first four return 0, the last returns \<^verbatim>\<open>None\<close>.

  This is the part of claim C10 that the parsers decide. Here \<open>proto\<close> is the object as
  the parser's own statements leave it: the two collaborators are methods of the base
  class \<^verbatim>\<open>RFBProtocol\<close>, which is not among the sources, and what they do to the object
  (and so whether the session after the call is the session before it) is not settled
  by this theorem.
\<close>

theorem fatal_paths_leave_state:
  "let r = call_packet_parser env self packet;
       first = (if uint (hd types) \<in> set (RFBAuth_values env) then RFBAuth (uint (hd types))
                else OpaqueInt (uint (hd types)));
       status = decode (native env) Fmt_I (take 4 packet);
       encoding = decode BigEndian Fmt_i (take 4 (drop 12 packet))
   in (aborts (effects r) \<noteq> [] \<longrightarrow>
         proto r = self \<and> sends (effects r) = [] \<and> length (aborts (effects r)) = 1) \<and>
      (packet_parser self = AwaitingSecurityHandshake \<and> packet = 0 # rest \<longrightarrow>
         outcome r = Returned (RInt 0) \<and>
         aborts (effects r) = [InternalError packet (CannotParseSecurityHandshake packet)]) \<and>
      (packet_parser self = AwaitingSecurityHandshake \<and> packet = n # types \<and> n \<noteq> 0 \<and>
       length types = unat n \<and> uint (hd types) \<noteq> RFBAuth_NONE env \<longrightarrow>
         outcome r = Returned (RInt 0) \<and>
         aborts (effects r) = [InternalError packet (SecurityTypeNotSupported first)]) \<and>
      (packet_parser self = AwaitingSecurityResult \<and> 4 \<le> length packet \<and>
       take 4 packet \<noteq> [0, 0, 0, 0] \<longrightarrow>
         outcome r = Returned (RInt 0) \<and>
         aborts (effects r) = [InternalError packet (AuthenticationDenied status)]) \<and>
      (packet_parser self = SteadyStateUpdates \<and> 16 < length packet \<and>
       take 4 packet \<noteq> [0, 0, 0, 1] \<longrightarrow>
         outcome r = Returned (RInt 0) \<and>
         aborts (effects r) = [Invalid UnknownPacket packet]) \<and>
      (packet_parser self = SteadyStateUpdates \<and> 16 < length packet \<and>
       take 4 packet = [0, 0, 0, 1] \<and> encoding \<noteq> RFBEncoding_RAW env \<longrightarrow>
         outcome r = Returned RNone \<and>
         aborts (effects r) = [Invalid (InvalidEncoding encoding) packet])"
proof -
  have zero: "outcome (call_packet_parser env self packet) = Returned (RInt 0) \<and>
      aborts (effects (call_packet_parser env self packet)) =
        [InternalError packet (CannotParseSecurityHandshake packet)]"
    if "packet_parser self = AwaitingSecurityHandshake" "packet = 0 # rest"
    using that by (simp add: call_packet_parser_def handshake_zero_count aborts_def)
  have unsupported: "outcome (call_packet_parser env self packet) = Returned (RInt 0) \<and>
      aborts (effects (call_packet_parser env self packet)) =
        [InternalError packet (SecurityTypeNotSupported
           (if uint (hd types) \<in> set (RFBAuth_values env) then RFBAuth (uint (hd types))
            else OpaqueInt (uint (hd types))))]"
    if "packet_parser self = AwaitingSecurityHandshake" "packet = n # types" "n \<noteq> 0"
      "length types = unat n" "uint (hd types) \<noteq> RFBAuth_NONE env"
  proof -
    from that(3,4) have "types \<noteq> []" by (auto simp: unat_eq_0)
    then obtain t ts where types: "types = t # ts" by (cases types) auto
    have r: "call_packet_parser env self packet = parse_security_handshake env self (n # types)"
      using that(1,2) by (simp add: call_packet_parser_def)
    show ?thesis
      unfolding r handshake_exact_length [OF that(3,4)]
      using that(2,5) by (simp add: Let_def aborts_def types)
  qed
  have denied: "outcome (call_packet_parser env self packet) = Returned (RInt 0) \<and>
      aborts (effects (call_packet_parser env self packet)) =
        [InternalError packet
           (AuthenticationDenied (decode (native env) Fmt_I (take 4 packet)))]"
    if "packet_parser self = AwaitingSecurityResult" "4 \<le> length packet"
      "take 4 packet \<noteq> [0, 0, 0, 0]"
    using that by (simp add: call_packet_parser_def security_result_denied aborts_def)
  have marker: "outcome (call_packet_parser env self packet) = Returned (RInt 0) \<and>
      aborts (effects (call_packet_parser env self packet)) = [Invalid UnknownPacket packet]"
    if "packet_parser self = SteadyStateUpdates" "16 < length packet"
      "take 4 packet \<noteq> [0, 0, 0, 1]"
    using that by (simp add: call_packet_parser_def parse_rfb_packet_long Let_def aborts_def)
  have non_raw: "outcome (call_packet_parser env self packet) = Returned RNone \<and>
      aborts (effects (call_packet_parser env self packet)) =
        [Invalid (InvalidEncoding (decode BigEndian Fmt_i (take 4 (drop 12 packet)))) packet]"
    if "packet_parser self = SteadyStateUpdates" "16 < length packet"
      "take 4 packet = [0, 0, 0, 1]"
      "decode BigEndian Fmt_i (take 4 (drop 12 packet)) \<noteq> RFBEncoding_RAW env"
    using that by (simp add: call_packet_parser_def parse_rfb_packet_long Let_def aborts_def)
  show ?thesis
    unfolding Let_def
    using call_packet_parser_abort_frame [of env self packet] zero unsupported denied marker
      non_raw
    by blast
qed

theorem fatal_paths_leave_state_witness:
  "aborts (effects (call_packet_parser rfc6143_env \<lparr>packet_parser = AwaitingSecurityHandshake\<rparr>
       [0, 5])) = [InternalError [0, 5] (CannotParseSecurityHandshake [0, 5])] \<and>
   proto (call_packet_parser rfc6143_env \<lparr>packet_parser = AwaitingSecurityHandshake\<rparr> [0, 5]) =
     \<lparr>packet_parser = AwaitingSecurityHandshake\<rparr> \<and>
   sends (effects (call_packet_parser rfc6143_env \<lparr>packet_parser = AwaitingSecurityHandshake\<rparr>
       [0, 5])) = [] \<and>
   aborts (effects (call_packet_parser rfc6143_env \<lparr>packet_parser = AwaitingSecurityHandshake\<rparr>
       [1, 2])) = [InternalError [1, 2] (SecurityTypeNotSupported (RFBAuth 2))] \<and>
   proto (call_packet_parser rfc6143_env \<lparr>packet_parser = AwaitingSecurityHandshake\<rparr> [1, 2]) =
     \<lparr>packet_parser = AwaitingSecurityHandshake\<rparr> \<and>
   aborts (effects (call_packet_parser rfc6143_env \<lparr>packet_parser = AwaitingSecurityResult\<rparr>
       [0, 0, 0, 1])) = [InternalError [0, 0, 0, 1] (AuthenticationDenied 16777216)] \<and>
   proto (call_packet_parser rfc6143_env \<lparr>packet_parser = AwaitingSecurityResult\<rparr>
       [0, 0, 0, 1]) = \<lparr>packet_parser = AwaitingSecurityResult\<rparr> \<and>
   aborts (effects (call_packet_parser rfc6143_env \<lparr>packet_parser = SteadyStateUpdates\<rparr>
       [3, 0, 0, 1, 0, 0, 0, 0, 0, 2, 0, 2, 0, 0, 0, 0, 9])) =
     [Invalid UnknownPacket [3, 0, 0, 1, 0, 0, 0, 0, 0, 2, 0, 2, 0, 0, 0, 0, 9]] \<and>
   proto (call_packet_parser rfc6143_env \<lparr>packet_parser = SteadyStateUpdates\<rparr>
       [3, 0, 0, 1, 0, 0, 0, 0, 0, 2, 0, 2, 0, 0, 0, 0, 9]) =
     \<lparr>packet_parser = SteadyStateUpdates\<rparr> \<and>
   aborts (effects (call_packet_parser rfc6143_env \<lparr>packet_parser = SteadyStateUpdates\<rparr>
       [0, 0, 0, 1, 0, 0, 0, 0, 0, 2, 0, 2, 0, 0, 0, 1, 9])) =
     [Invalid (InvalidEncoding 1) [0, 0, 0, 1, 0, 0, 0, 0, 0, 2, 0, 2, 0, 0, 0, 1, 9]] \<and>
   proto (call_packet_parser rfc6143_env \<lparr>packet_parser = SteadyStateUpdates\<rparr>
       [0, 0, 0, 1, 0, 0, 0, 0, 0, 2, 0, 2, 0, 0, 0, 1, 9]) =
     \<lparr>packet_parser = SteadyStateUpdates\<rparr>"
  using fatal_paths_leave_state
      [of rfc6143_env "\<lparr>packet_parser = AwaitingSecurityHandshake\<rparr>" "[0, 5]" "[]" "[5]" 0]
    fatal_paths_leave_state
      [of rfc6143_env "\<lparr>packet_parser = AwaitingSecurityHandshake\<rparr>" "[1, 2]" "[2]" "[]" 1]
    fatal_paths_leave_state
      [of rfc6143_env "\<lparr>packet_parser = AwaitingSecurityResult\<rparr>" "[0, 0, 0, 1]" "[]" "[]" 0]
    fatal_paths_leave_state
      [of rfc6143_env "\<lparr>packet_parser = SteadyStateUpdates\<rparr>"
        "[3, 0, 0, 1, 0, 0, 0, 0, 0, 2, 0, 2, 0, 0, 0, 0, 9]" "[]" "[]" 0]
    fatal_paths_leave_state
      [of rfc6143_env "\<lparr>packet_parser = SteadyStateUpdates\<rparr>"
        "[0, 0, 0, 1, 0, 0, 0, 0, 0, 2, 0, 2, 0, 0, 0, 1, 9]" "[]" "[]" 0]
  by (simp add: rfc6143_env_def decode_def be_nat_def Let_def)

end
